theory Spec2Isabelle
  imports Main
begin

section \<open>JavaScript values\<close>

text \<open>
  The import command (\<^verbatim>\<open>lib/commands/actions/import/action.js\<close>) receives a dynamically
  typed options object. Its fields are read with \<^verbatim>\<open>opts.name\<close>, defaulted with
  \<^verbatim>\<open>||\<close> and coerced with \<^verbatim>\<open>!!\<close>, so the model carries JavaScript values and
  their truthiness. Numbers are integers plus \<^verbatim>\<open>NaN\<close>: only whether a number is
  zero matters to the code below.
\<close>

datatype jsval =
    JUndefined
  | JNull
  | JBool bool
  | JNum int
  | JNaN
  | JStr string
  | JArr "jsval list"

text \<open>ToBoolean: the falsy values are undefined, null, false, 0, NaN and the empty string.\<close>

fun truthy :: "jsval \<Rightarrow> bool" where
  "truthy JUndefined = False"
| "truthy JNull = False"
| "truthy (JBool b) = b"
| "truthy (JNum n) = (n \<noteq> 0)"
| "truthy JNaN = False"
| "truthy (JStr s) = (s \<noteq> [])"
| "truthy (JArr xs) = True"

text \<open>\<^verbatim>\<open>a || b\<close> yields \<^verbatim>\<open>a\<close> when it is truthy and \<^verbatim>\<open>b\<close> otherwise.\<close>

definition js_or :: "jsval \<Rightarrow> jsval \<Rightarrow> jsval" where
  "js_or a b = (if truthy a then a else b)"

text \<open>\<^verbatim>\<open>!v\<close> is a boolean; \<^verbatim>\<open>!!v\<close> negates it once more.\<close>

definition js_not :: "jsval \<Rightarrow> bool" where
  "js_not v = (\<not> truthy v)"

text \<open>An object is a finite map from property names; reading a missing property gives undefined.\<close>

type_synonym js_object = "string \<rightharpoonup> jsval"

definition property :: "js_object \<Rightarrow> string \<Rightarrow> jsval" where
  "property obj name = (case obj name of None \<Rightarrow> JUndefined | Some v \<Rightarrow> v)"

text \<open>\<^verbatim>\<open>Array.prototype.includes\<close> on an array of strings, searched front to back.\<close>

fun array_includes :: "'a list \<Rightarrow> 'a \<Rightarrow> bool" where
  "array_includes [] x = False"
| "array_includes (y # ys) x = (y = x \<or> array_includes ys x)"

section \<open>Data crossing the transfer boundary\<close>

record entity_ref =
  type :: string
  id' :: jsval

record entity = entity_ref +
  attributes :: js_object

record link =
  left :: entity_ref
  right :: entity_ref
  kind :: string

text \<open>The context handed to a schema-diff handler; only \<^verbatim>\<open>diffs\<close> is touched by the command.\<close>

record 'd transfer_context =
  diffs :: "'d list"

section \<open>Option objects built by the command\<close>

record file_options =
  path :: jsval

record enabled_options =
  enabled :: bool

record encryption_options = enabled_options +
  key :: jsval

record source_options =
  file' :: file_options
  compression :: enabled_options
  encryption :: encryption_options

record transfer_rules =
  links :: "(link \<Rightarrow> bool) list"
  entities :: "(entity \<Rightarrow> bool) list"

record engine_options =
  versionStrategy :: jsval
  schemaStrategy :: jsval
  exclude :: jsval
  only :: jsval
  throttle :: jsval
  rules :: transfer_rules

record restore_entities_options =
  exclude :: "string list"

record restore_options =
  entities :: restore_entities_options

text \<open>
  \<^verbatim>\<open>getStrapi\<close> always returns the one instance created by the command and is left out.
\<close>

record destination_options =
  autoDestroy :: bool
  strategy :: jsval
  restore :: restore_options

section \<open>What the command imports and what it observes\<close>

text \<open>
  What the engine emits while \<^verbatim>\<open>engine.transfer()\<close> runs, as far as the command has
  registered a listener for it: the three stage events of the progress stream (with their
  \<^verbatim>\<open>stage\<close> and \<^verbatim>\<open>data\<close>), \<^verbatim>\<open>transfer::start\<close>, a diagnostic, and a schema
  difference handed to the schema-diff handler. \<open>Unheard\<close> is any other event.
\<close>

datatype engine_event =
    StageStart string jsval
  | StageFinish string jsval
  | StageProgress string jsval
  | TransferStart
  | Diagnostic jsval
  | SchemaDiff "jsval transfer_context"
  | Unheard string

text \<open>
  \<^verbatim>\<open>await engine.transfer()\<close> throws, or yields the value the promise resolves to;
  \<open>None\<close> is \<^verbatim>\<open>undefined\<close>.
\<close>

datatype 'r transfer_outcome = Throws | Returns "'r option"

record 'r transfer_run =
  emitted :: "engine_event list"
  outcome :: "'r transfer_outcome"

datatype exit_message = CouldNotParseArguments | ExitMessageText string bool

text \<open>
  Everything the command takes from other modules is a parameter. The constants come from
  \<^verbatim>\<open>@strapi/data-transfer\<close> and \<^verbatim>\<open>utils/data-transfer\<close>. \<^verbatim>\<open>confirmMessage\<close> is the
  answer of the prompt for a message and the \<^verbatim>\<open>force\<close> option. \<^verbatim>\<open>transfer\<close> is
  the run of \<^verbatim>\<open>engine.transfer()\<close> for an engine created from the three option
  objects. \<^verbatim>\<open>buildTransferTable\<close> is the text of the table for a result, or \<open>None\<close>
  when building or rendering it throws. \<^verbatim>\<open>telemetry_send\<close> tells whether
  \<^verbatim>\<open>strapiInstance.telemetry.send\<close> of an event resolves, \<^verbatim>\<open>destroy\<close> whether
  \<^verbatim>\<open>strapiInstance.destroy()\<close> resolves. \<^verbatim>\<open>exitWith\<close> of \<^verbatim>\<open>utils/helpers\<close> gives
  the exit code with which it ends the process, or \<open>None\<close> when it returns to its caller.
\<close>

record 'r env =
  DEFAULT_IGNORED_CONTENT_TYPES :: "string list"
  DEFAULT_CONFLICT_STRATEGY :: jsval
  DEFAULT_VERSION_STRATEGY :: jsval
  DEFAULT_SCHEMA_STRATEGY :: jsval
  confirmMessage :: "string \<Rightarrow> jsval \<Rightarrow> bool"
  transfer :: "source_options \<Rightarrow> destination_options \<Rightarrow> engine_options \<Rightarrow> 'r transfer_run"
  buildTransferTable :: "'r \<Rightarrow> string option"
  telemetry_send :: "string \<Rightarrow> bool"
  destroy :: bool
  exitWith :: "nat \<Rightarrow> exit_message \<Rightarrow> nat option"

section \<open>The import command\<close>

definition getLocalFileSourceOptions :: "js_object \<Rightarrow> source_options" where
  "getLocalFileSourceOptions opts =
     \<lparr> file' = \<lparr> path = property opts ''file'' \<rparr>,
       compression = \<lparr> enabled = \<not> js_not (property opts ''decompress'') \<rparr>,
       encryption = \<lparr> enabled = \<not> js_not (property opts ''decrypt''), key = property opts ''key'' \<rparr> \<rparr>"

definition destinationOptions :: "'r env \<Rightarrow> js_object \<Rightarrow> destination_options" where
  "destinationOptions env opts =
     \<lparr> autoDestroy = False,
       strategy = js_or (property opts ''conflictStrategy'') (DEFAULT_CONFLICT_STRATEGY env),
       restore = \<lparr> restore_options.entities =
         \<lparr> restore_entities_options.exclude = DEFAULT_IGNORED_CONTENT_TYPES env \<rparr> \<rparr> \<rparr>"

text \<open>The two filters registered under \<^verbatim>\<open>rules.links\<close> and \<^verbatim>\<open>rules.entities\<close>.\<close>

definition links_filter :: "'r env \<Rightarrow> link \<Rightarrow> bool" where
  "links_filter env link =
     (\<not> array_includes (DEFAULT_IGNORED_CONTENT_TYPES env) (type (left link)) \<and>
      \<not> array_includes (DEFAULT_IGNORED_CONTENT_TYPES env) (type (right link)))"

definition entities_filter :: "'r env \<Rightarrow> entity \<Rightarrow> bool" where
  "entities_filter env entity = (\<not> array_includes (DEFAULT_IGNORED_CONTENT_TYPES env) (type entity))"

definition engineOptions :: "'r env \<Rightarrow> js_object \<Rightarrow> engine_options" where
  "engineOptions env opts =
     \<lparr> versionStrategy = js_or (property opts ''versionStrategy'') (DEFAULT_VERSION_STRATEGY env),
       schemaStrategy = js_or (property opts ''schemaStrategy'') (DEFAULT_SCHEMA_STRATEGY env),
       engine_options.exclude = property opts ''exclude'',
       only = property opts ''only'',
       throttle = property opts ''throttle'',
       rules = \<lparr> links = [links_filter env],
                 transfer_rules.entities = [entities_filter env] \<rparr> \<rparr>"

subsection \<open>Effects\<close>

text \<open>
  The two closures given to \<^verbatim>\<open>setSignalHandler\<close>: one aborts the transfer, the other
  aborts it and then exits the process.
\<close>

datatype signal_handler = AbortTransfer | AbortTransferAndExit

text \<open>
  What the command does to the outside, call by call. \<open>TelemetrySend\<close>,
  \<open>StrapiDestroy\<close> and \<open>ExitWith\<close> record that the call was made; how it ended is
  given by the parameters above.
\<close>

datatype effect =
    SetSignalHandler signal_handler
  | ConfirmMessage string jsval
  | ConsoleLog string
  | ConsoleError string
  | TelemetrySend string
  | StrapiDestroy
  | ExitWith nat exit_message
  | UpdateLoader string jsval
  | LoaderStart string
  | LoaderSucceed string
  | FormatDiagnostic jsval

text \<open>
  A step of the schema-diff handler is an effect or a call of the continuation
  \<^verbatim>\<open>next\<close> with a context.
\<close>

datatype 'c step = Do effect | Next 'c

text \<open>The contexts that \<^verbatim>\<open>next\<close> was called with, in order.\<close>

fun next_calls :: "'c step list \<Rightarrow> 'c list" where
  "next_calls [] = []"
| "next_calls (Next c # steps) = c # next_calls steps"
| "next_calls (Do e # steps) = next_calls steps"

text \<open>The effects among the steps, in order.\<close>

fun effects_of :: "'c step list \<Rightarrow> effect list" where
  "effects_of [] = []"
| "effects_of (Do e # steps) = e # effects_of steps"
| "effects_of (Next c # steps) = effects_of steps"

text \<open>The lines written with \<^verbatim>\<open>console.log\<close>, in order.\<close>

fun console_log_lines :: "effect list \<Rightarrow> string list" where
  "console_log_lines [] = []"
| "console_log_lines (ConsoleLog line # es) = line # console_log_lines es"
| "console_log_lines (e # es) = console_log_lines es"

subsection \<open>The schema-diff handler\<close>

definition schemaDiffMessage :: string where
  "schemaDiffMessage = ''There are differences in schema between the source and destination, and the data listed above will be lost. Are you sure you want to continue?''"

text \<open>
  The handler registered with \<^verbatim>\<open>engine.onSchemaDiff\<close>. It returns what it did, in order,
  and the context object as the handler leaves it (the assignment to \<^verbatim>\<open>context.diffs\<close>
  changes the caller's object).
\<close>

definition onSchemaDiff_handler ::
  "'r env \<Rightarrow> js_object \<Rightarrow> ('d, 'z) transfer_context_scheme \<Rightarrow>
     ('d, 'z) transfer_context_scheme step list \<times> ('d, 'z) transfer_context_scheme" where
  "onSchemaDiff_handler env opts context =
     (let before = [Do (SetSignalHandler AbortTransferAndExit)];
          confirmed = confirmMessage env schemaDiffMessage (property opts ''force'');
          asked = before @ [Do (ConfirmMessage schemaDiffMessage (property opts ''force'')),
                            Do (SetSignalHandler AbortTransfer)]
      in if confirmed
         then (let context' = context\<lparr>diffs := []\<rparr> in (asked @ [Next context'], context'))
         else (asked @ [Next context], context))"

datatype decision = Proceed | Abort

text \<open>
  Modelled from the spec: the schema stage of the transfer engine (\<^verbatim>\<open>createTransferEngine\<close>
  of \<^verbatim>\<open>@strapi/data-transfer\<close>, which is not among the sources). After the handler has
  resumed the pipeline, a schema mismatch is "fatal unless handler clears diffs": the engine
  proceeds when the diff list of the context is empty and aborts otherwise.
\<close>

definition schema_decision :: "('d, 'z) transfer_context_scheme \<Rightarrow> decision" where
  "schema_decision context = (if diffs context = [] then Proceed else Abort)"

subsection \<open>The listeners\<close>

text \<open>
  What the listeners registered by the command do for one event of the engine:
  \<^verbatim>\<open>stage::start\<close>, \<^verbatim>\<open>stage::finish\<close> and \<^verbatim>\<open>stage::progress\<close> update the loader of
  the stage (and start it, or mark it as succeeded); \<^verbatim>\<open>transfer::start\<close> prints a line
  and sends the start event; a diagnostic goes to \<^verbatim>\<open>formatDiagnostic('import')\<close>; a schema
  difference runs the schema-diff handler.
\<close>

fun on_engine_event :: "'r env \<Rightarrow> js_object \<Rightarrow> engine_event \<Rightarrow> effect list" where
  "on_engine_event env opts (StageStart stage data) = [UpdateLoader stage data, LoaderStart stage]"
| "on_engine_event env opts (StageFinish stage data) = [UpdateLoader stage data, LoaderSucceed stage]"
| "on_engine_event env opts (StageProgress stage data) = [UpdateLoader stage data]"
| "on_engine_event env opts TransferStart =
     [ConsoleLog ''Starting import...'', TelemetrySend ''didDEITSProcessStart'']"
| "on_engine_event env opts (Diagnostic diagnostic) = [FormatDiagnostic diagnostic]"
| "on_engine_event env opts (SchemaDiff context) =
     effects_of (fst (onSchemaDiff_handler env opts context))"
| "on_engine_event env opts (Unheard name) = []"

text \<open>
  The listeners run in the order of the events. The \<^verbatim>\<open>transfer::start\<close> listener awaits
  its send; when that send rejects, nothing handles the rejection, and the run is taken to
  end there: the second component is \<open>False\<close>.
\<close>

fun run_listeners :: "'r env \<Rightarrow> js_object \<Rightarrow> engine_event list \<Rightarrow> effect list \<times> bool" where
  "run_listeners env opts [] = ([], True)"
| "run_listeners env opts (TransferStart # events) =
     (if telemetry_send env ''didDEITSProcessStart''
      then (let (heard, settled) = run_listeners env opts events
            in (on_engine_event env opts TransferStart @ heard, settled))
      else (on_engine_event env opts TransferStart, False))"
| "run_listeners env opts (event # events) =
     (let (heard, settled) = run_listeners env opts events
      in (on_engine_event env opts event @ heard, settled))"

subsection \<open>The command\<close>

text \<open>
  How a run of the command ends: \<^verbatim>\<open>exitWith\<close> ended the process with an exit code; or
  a call threw, or an awaited promise rejected, outside every \<^verbatim>\<open>try\<close>; or the function
  ran to its last line and returned.
\<close>

datatype ending = Exited nat | Rejected | Returned

text \<open>
  The argument of the command: an options object, or any other value. \<^verbatim>\<open>isObject\<close> of
  lodash holds of objects, arrays among them. Reading a property of \<^verbatim>\<open>undefined\<close> or
  \<^verbatim>\<open>null\<close> throws a TypeError (\<open>None\<close>); the other values have none of the properties
  the command reads.
\<close>

datatype cli_argument = Value jsval | OptionsObject js_object

fun isObject :: "cli_argument \<Rightarrow> bool" where
  "isObject (OptionsObject opts) = True"
| "isObject (Value (JArr xs)) = True"
| "isObject (Value v) = False"

fun read_options :: "cli_argument \<Rightarrow> js_object option" where
  "read_options (OptionsObject opts) = Some opts"
| "read_options (Value JUndefined) = None"
| "read_options (Value JNull) = None"
| "read_options (Value v) = Some Map.empty"

text \<open>\<^verbatim>\<open>createTransferEngine(source, destination, engineOptions)\<close> and \<^verbatim>\<open>engine.transfer()\<close>.\<close>

definition engine_transfer :: "'r env \<Rightarrow> js_object \<Rightarrow> 'r transfer_run" where
  "engine_transfer env opts =
     transfer env (getLocalFileSourceOptions opts) (destinationOptions env opts)
       (engineOptions env opts)"

text \<open>
  The second \<^verbatim>\<open>try\<close>: \<^verbatim>\<open>results.engine\<close> throws when \<^verbatim>\<open>results\<close> is undefined,
  building or rendering the table may throw, and the \<^verbatim>\<open>catch\<close> writes an error line.
\<close>

definition show_results :: "'r env \<Rightarrow> 'r option \<Rightarrow> effect list" where
  "show_results env results =
     (case results of
        None \<Rightarrow> [ConsoleError ''There was an error displaying the results of the transfer.'']
      | Some result \<Rightarrow>
          (case buildTransferTable env result of
             Some table \<Rightarrow> [ConsoleLog table]
           | None \<Rightarrow> [ConsoleError ''There was an error displaying the results of the transfer.'']))"

text \<open>The last three statements, after the effects \<open>done\<close> so far.\<close>

definition finish_import :: "'r env \<Rightarrow> effect list \<Rightarrow> effect list \<times> ending" where
  "finish_import env done =
     (if \<not> telemetry_send env ''didDEITSProcessFinish''
      then (done @ [TelemetrySend ''didDEITSProcessFinish''], Rejected)
      else if \<not> destroy env
      then (done @ [TelemetrySend ''didDEITSProcessFinish'', StrapiDestroy], Rejected)
      else (done @ [TelemetrySend ''didDEITSProcessFinish'', StrapiDestroy,
                    ExitWith 0 (ExitMessageText ''import'' False)],
            case exitWith env 0 (ExitMessageText ''import'' False) of
              Some code \<Rightarrow> Exited code
            | None \<Rightarrow> Returned))"

text \<open>
  The exported action: the effects of a run, in order, and how the run ends. Creating the
  providers, the Strapi instance and the engine, and registering the listeners, is taken
  to succeed and leaves no effect here. A signal that arrives during a run is outside the
  model.
\<close>

definition import_action :: "'r env \<Rightarrow> cli_argument \<Rightarrow> effect list \<times> ending" where
  "import_action env arg =
     (let refused = (if isObject arg then [] else [ExitWith 1 CouldNotParseArguments]);
          stopped = (if isObject arg then None else exitWith env 1 CouldNotParseArguments)
      in case stopped of
           Some code \<Rightarrow> (refused, Exited code)
         | None \<Rightarrow>
            (case read_options arg of
               None \<Rightarrow> (refused, Rejected)
             | Some opts \<Rightarrow>
                (let run = engine_transfer env opts;
                     started = refused @ [SetSignalHandler AbortTransfer];
                     (heard, settled) = run_listeners env opts (emitted run)
                 in if \<not> settled then (started @ heard, Rejected)
                    else case outcome run of
                      Returns results \<Rightarrow>
                        finish_import env (started @ heard @ show_results env results)
                    | Throws \<Rightarrow>
                        (if \<not> telemetry_send env ''didDEITSProcessFail''
                         then (started @ heard @ [TelemetrySend ''didDEITSProcessFail''], Rejected)
                         else (let failed = started @ heard @
                                     [TelemetrySend ''didDEITSProcessFail'',
                                      ExitWith 1 (ExitMessageText ''import'' True)]
                               in case exitWith env 1 (ExitMessageText ''import'' True) of
                                    Some code \<Rightarrow> (failed, Exited code)
                                  | None \<Rightarrow>
                                      finish_import env (failed @ show_results env None))))))"

section \<open>The filters as calls on a store\<close>







section \<open>Concrete inputs\<close>

text \<open>
  A small installation used to run the definitions: three ignored content types, the
  defaults of the three strategies, a prompt that confirms exactly when \<^verbatim>\<open>force\<close> is
  truthy, a transfer of seven entities that returns a result whose table can be shown,
  telemetry and shutdown that succeed, and an \<^verbatim>\<open>exitWith\<close> that ends the process with
  the code it is given.
\<close>

definition env_example :: "nat env" where
  "env_example =
     \<lparr> DEFAULT_IGNORED_CONTENT_TYPES = [''admin::permission'', ''admin::user'', ''admin::role''],
       DEFAULT_CONFLICT_STRATEGY = JStr ''restore'',
       DEFAULT_VERSION_STRATEGY = JStr ''ignore'',
       DEFAULT_SCHEMA_STRATEGY = JStr ''strict'',
       confirmMessage = (\<lambda>message force. truthy force),
       transfer = (\<lambda>source destination options.
         \<lparr> emitted = [TransferStart, StageStart ''entities'' (JNum 0),
                       StageFinish ''entities'' (JNum 7)],
           outcome = Returns (Some 7) \<rparr>),
       buildTransferTable = (\<lambda>results. Some ''entities 7''),
       telemetry_send = (\<lambda>event. True),
       destroy = True,
       exitWith = (\<lambda>code message. Some code) \<rparr>"

text \<open>The transfer starts and then throws.\<close>

definition env_throwing :: "nat env" where
  "env_throwing =
     env_example \<lparr> transfer := (\<lambda>source destination options.
       \<lparr> emitted = [TransferStart, StageStart ''entities'' (JNum 0)], outcome = Throws \<rparr>) \<rparr>"

text \<open>The transfer does not throw, and its promise resolves to \<^verbatim>\<open>undefined\<close>.\<close>

definition env_undefined_result :: "nat env" where
  "env_undefined_result =
     env_example \<lparr> transfer := (\<lambda>source destination options.
       \<lparr> emitted = [TransferStart], outcome = Returns None \<rparr>) \<rparr>"

text \<open>The transfer returns a result, and building its table throws.\<close>

definition env_no_table :: "nat env" where
  "env_no_table = env_example \<lparr> buildTransferTable := (\<lambda>results. None) \<rparr>"



definition opts_plain :: js_object where
  "opts_plain = [''file'' \<mapsto> JStr ''backup.tar'', ''key'' \<mapsto> JStr ''secret'']"

definition opts_forced :: js_object where
  "opts_forced = [''file'' \<mapsto> JStr ''backup.tar'', ''force'' \<mapsto> JBool True]"

definition opts_strategies :: js_object where
  "opts_strategies =
     [''file'' \<mapsto> JStr ''backup.tar'', ''versionStrategy'' \<mapsto> JStr ''exact'',
      ''schemaStrategy'' \<mapsto> JStr ''permissive'', ''conflictStrategy'' \<mapsto> JStr ''merge'']"

definition opts_empty_strategy :: js_object where
  "opts_empty_strategy = [''file'' \<mapsto> JStr ''backup.tar'', ''versionStrategy'' \<mapsto> JStr []]"

definition entity_article :: entity where
  "entity_article = \<lparr> type = ''api::article.article'', id' = JNum 1, attributes = Map.empty \<rparr>"


definition link_articles :: link where
  "link_articles =
     \<lparr> left = \<lparr> type = ''api::article.article'', id' = JNum 1 \<rparr>,
       right = \<lparr> type = ''api::article.article'', id' = JNum 2 \<rparr>,
       kind = ''relation.basic'' \<rparr>"


definition context_example :: "string transfer_context" where
  "context_example = \<lparr> diffs = [''api::article.article.attributes.title''] \<rparr>"

section \<open>Basic facts\<close>

lemma array_includes_set: "array_includes xs x \<longleftrightarrow> x \<in> set xs"
  by (induction xs) auto

lemma not_js_not: "(\<not> js_not v) = truthy v"
  by (simp add: js_not_def)

lemma js_or_unset: "obj name = None \<Longrightarrow> js_or (property obj name) d = d"
  by (simp add: js_or_def property_def)

lemma onSchemaDiff_handler_confirmed:
  "confirmMessage env schemaDiffMessage (property opts ''force'') \<Longrightarrow>
   onSchemaDiff_handler env opts context =
     ([Do (SetSignalHandler AbortTransferAndExit),
       Do (ConfirmMessage schemaDiffMessage (property opts ''force'')),
       Do (SetSignalHandler AbortTransfer),
       Next (context\<lparr>diffs := []\<rparr>)], context\<lparr>diffs := []\<rparr>)"
  by (simp add: onSchemaDiff_handler_def Let_def)

lemma onSchemaDiff_handler_declined:
  "\<not> confirmMessage env schemaDiffMessage (property opts ''force'') \<Longrightarrow>
   onSchemaDiff_handler env opts context =
     ([Do (SetSignalHandler AbortTransferAndExit),
       Do (ConfirmMessage schemaDiffMessage (property opts ''force'')),
       Do (SetSignalHandler AbortTransfer),
       Next context], context)"
  by (simp add: onSchemaDiff_handler_def Let_def)

lemma console_log_lines_append:
  "console_log_lines (xs @ ys) = console_log_lines xs @ console_log_lines ys"
  by (induction xs rule: console_log_lines.induct) simp_all

lemma handler_logs_nothing:
  "console_log_lines (effects_of (fst (onSchemaDiff_handler env opts context))) = []"
  by (cases "confirmMessage env schemaDiffMessage (property opts ''force'')")
     (simp_all add: onSchemaDiff_handler_confirmed onSchemaDiff_handler_declined)

lemma on_engine_event_log:
  "set (console_log_lines (on_engine_event env opts event)) \<subseteq> {''Starting import...''}"
  by (cases event) (simp_all add: handler_logs_nothing)

lemma listeners_log:
  "set (console_log_lines (concat (map (on_engine_event env opts) events))) \<subseteq>
     {''Starting import...''}"
proof (induction events)
  case Nil
  then show ?case by simp
next
  case (Cons event events)
  from on_engine_event_log [of env opts event] Cons.IH show ?case
    by (simp add: console_log_lines_append)
qed

lemma run_listeners_settled:
  assumes "telemetry_send env ''didDEITSProcessStart''"
  shows "run_listeners env opts events = (concat (map (on_engine_event env opts) events), True)"
proof (induction events)
  case Nil
  then show ?case by simp
next
  case (Cons event events)
  with assms show ?case by (cases event) simp_all
qed

lemma finish_import_exits:
  assumes "telemetry_send env ''didDEITSProcessFinish''" and "destroy env"
    and "exitWith env 0 (ExitMessageText ''import'' False) = Some 0"
  shows "finish_import env done =
     (done @ [TelemetrySend ''didDEITSProcessFinish'', StrapiDestroy,
              ExitWith 0 (ExitMessageText ''import'' False)], Exited 0)"
  using assms by (simp add: finish_import_def)

lemma import_action_throws:
  assumes "telemetry_send env ''didDEITSProcessStart''"
    and "telemetry_send env ''didDEITSProcessFail''"
    and "exitWith env 1 (ExitMessageText ''import'' True) = Some 1"
    and "outcome (engine_transfer env opts) = Throws"
  shows "import_action env (OptionsObject opts) =
     ([SetSignalHandler AbortTransfer] @
      concat (map (on_engine_event env opts) (emitted (engine_transfer env opts))) @
      [TelemetrySend ''didDEITSProcessFail'', ExitWith 1 (ExitMessageText ''import'' True)],
      Exited 1)"
  using assms(2-4)
  by (simp add: import_action_def Let_def run_listeners_settled [OF assms(1)])

lemma import_action_returns:
  assumes "telemetry_send env ''didDEITSProcessStart''"
    and "telemetry_send env ''didDEITSProcessFinish''" and "destroy env"
    and "exitWith env 0 (ExitMessageText ''import'' False) = Some 0"
    and "outcome (engine_transfer env opts) = Returns results"
  shows "import_action env (OptionsObject opts) =
     ([SetSignalHandler AbortTransfer] @
      concat (map (on_engine_event env opts) (emitted (engine_transfer env opts))) @
      show_results env results @
      [TelemetrySend ''didDEITSProcessFinish'', StrapiDestroy,
       ExitWith 0 (ExitMessageText ''import'' False)],
      Exited 0)"
  using assms(5)
  by (simp add: import_action_def Let_def run_listeners_settled [OF assms(1)]
      finish_import_exits [OF assms(2-4)])





section \<open>The schema-diff handler\<close>

text \<open>
  C1. When the prompt is confirmed, the handler sets \<^verbatim>\<open>context.diffs\<close> to the empty
  list and resumes the pipeline: \<^verbatim>\<open>next\<close> is called, as the last step, with the
  context whose diff list has been cleared.
\<close>

theorem confirmed_clears_diffs_and_resumes:
  assumes "confirmMessage env schemaDiffMessage (property opts ''force'')"
  shows "snd (onSchemaDiff_handler env opts context) = context\<lparr>diffs := []\<rparr> \<and>
         diffs (snd (onSchemaDiff_handler env opts context)) = [] \<and>
         next_calls (fst (onSchemaDiff_handler env opts context)) = [context\<lparr>diffs := []\<rparr>] \<and>
         last (fst (onSchemaDiff_handler env opts context)) = Next (context\<lparr>diffs := []\<rparr>)"
  by (simp add: onSchemaDiff_handler_confirmed [OF assms])

theorem confirmed_clears_diffs_and_resumes_witness:
  "confirmMessage env_example schemaDiffMessage (property opts_forced ''force'') \<and>
   diffs context_example \<noteq> [] \<and>
   diffs (snd (onSchemaDiff_handler env_example opts_forced context_example)) = [] \<and>
   next_calls (fst (onSchemaDiff_handler env_example opts_forced context_example)) =
     [\<lparr> diffs = [] \<rparr>]"
proof -
  have yes: "confirmMessage env_example schemaDiffMessage (property opts_forced ''force'')"
    by (simp add: env_example_def opts_forced_def property_def)
  have some: "diffs context_example \<noteq> []"
    by (simp add: context_example_def)
  have cleared: "context_example\<lparr>diffs := []\<rparr> = \<lparr> diffs = [] \<rparr>"
    by (simp add: context_example_def)
  from confirmed_clears_diffs_and_resumes [OF yes, of context_example] yes some cleared
  show ?thesis by simp
qed

text \<open>
  C2. When the prompt is declined and the handler was given a non-empty diff list, the
  context is left as it was: its diff list is still non-empty, \<^verbatim>\<open>next\<close> receives that
  unchanged context, and the engine's check of the remaining diffs decides to abort, so
  the transfer does not go on with the diffs discarded.
\<close>

theorem declined_keeps_diffs_and_aborts:
  assumes "\<not> confirmMessage env schemaDiffMessage (property opts ''force'')"
    and "diffs context \<noteq> []"
  shows "snd (onSchemaDiff_handler env opts context) = context \<and>
         diffs (snd (onSchemaDiff_handler env opts context)) \<noteq> [] \<and>
         next_calls (fst (onSchemaDiff_handler env opts context)) = [context] \<and>
         schema_decision (snd (onSchemaDiff_handler env opts context)) = Abort"
  using assms(2)
  by (simp add: onSchemaDiff_handler_declined [OF assms(1)] schema_decision_def)

theorem declined_keeps_diffs_and_aborts_witness:
  "\<not> confirmMessage env_example schemaDiffMessage (property opts_plain ''force'') \<and>
   diffs context_example \<noteq> [] \<and>
   snd (onSchemaDiff_handler env_example opts_plain context_example) = context_example \<and>
   next_calls (fst (onSchemaDiff_handler env_example opts_plain context_example)) =
     [context_example] \<and>
   schema_decision (snd (onSchemaDiff_handler env_example opts_plain context_example)) = Abort"
proof -
  have no: "\<not> confirmMessage env_example schemaDiffMessage (property opts_plain ''force'')"
    by (simp add: env_example_def opts_plain_def property_def)
  have some: "diffs context_example \<noteq> []"
    by (simp add: context_example_def)
  from declined_keeps_diffs_and_aborts [OF no some] no some
  show ?thesis by blast
qed

text \<open>
  C3. Whatever the answer of the prompt, the handler calls \<^verbatim>\<open>next\<close> exactly once, with
  the context as the handler leaves it, and that call is its last step.
\<close>

theorem handler_calls_next_exactly_once:
  "next_calls (fst (onSchemaDiff_handler env opts context)) =
     [snd (onSchemaDiff_handler env opts context)] \<and>
   length (next_calls (fst (onSchemaDiff_handler env opts context))) = 1 \<and>
   last (fst (onSchemaDiff_handler env opts context)) =
     Next (snd (onSchemaDiff_handler env opts context))"
proof (cases "confirmMessage env schemaDiffMessage (property opts ''force'')")
  case True
  then show ?thesis by (simp add: onSchemaDiff_handler_confirmed)
next
  case False
  then show ?thesis by (simp add: onSchemaDiff_handler_declined)
qed

section \<open>The registered filter rules\<close>

text \<open>
  C4. One entity predicate and one link predicate are registered. The entity predicate
  accepts an entity exactly when its type is not in \<^verbatim>\<open>DEFAULT_IGNORED_CONTENT_TYPES\<close>;
  the link predicate accepts a link exactly when neither the type of its left end nor the
  type of its right end is in that list.
\<close>

theorem default_rules_exclude_ignored:
  "map (\<lambda>p. p e) (transfer_rules.entities (rules (engineOptions env opts))) =
     [type e \<notin> set (DEFAULT_IGNORED_CONTENT_TYPES env)] \<and>
   map (\<lambda>p. p l) (links (rules (engineOptions env opts))) =
     [type (left l) \<notin> set (DEFAULT_IGNORED_CONTENT_TYPES env) \<and>
      type (right l) \<notin> set (DEFAULT_IGNORED_CONTENT_TYPES env)]"
  by (simp add: engineOptions_def entities_filter_def links_filter_def array_includes_set)

text \<open>
  C5. If every registered link predicate accepts a link, then every registered entity
  predicate accepts any entity whose type is the type of the link's left or right end.
\<close>

theorem accepted_link_has_accepted_endpoints:
  assumes "list_all (\<lambda>p. p l) (links (rules (engineOptions env opts)))"
    and "type e = type (left l) \<or> type e = type (right l)"
  shows "list_all (\<lambda>p. p e) (transfer_rules.entities (rules (engineOptions env opts)))"
  using assms
  by (auto simp add: engineOptions_def entities_filter_def links_filter_def)

theorem accepted_link_has_accepted_endpoints_witness:
  "list_all (\<lambda>p. p link_articles) (links (rules (engineOptions env_example opts_plain))) \<and>
   type entity_article = type (left link_articles) \<and>
   list_all (\<lambda>p. p entity_article)
     (transfer_rules.entities (rules (engineOptions env_example opts_plain)))"
proof -
  have accepted:
    "list_all (\<lambda>p. p link_articles) (links (rules (engineOptions env_example opts_plain)))"
    by (simp add: engineOptions_def links_filter_def env_example_def link_articles_def)
  have endpoint: "type entity_article = type (left link_articles)"
    by (simp add: entity_article_def link_articles_def)
  from accepted_link_has_accepted_endpoints [OF accepted disjI1 [OF endpoint]] accepted endpoint
  show ?thesis by simp
qed




section \<open>Options handed to the providers and the engine\<close>

text \<open>
  C6, as the claim states it, fails for a strategy that is supplied but falsy: the empty
  string given as \<^verbatim>\<open>versionStrategy\<close> does not reach the engine, which receives the
  default instead.
\<close>

theorem empty_strategy_replaced_by_default:
  "opts_empty_strategy ''versionStrategy'' = Some (JStr []) \<and>
   versionStrategy (engineOptions env_example opts_empty_strategy) = JStr ''ignore'' \<and>
   versionStrategy (engineOptions env_example opts_empty_strategy) \<noteq>
     property opts_empty_strategy ''versionStrategy''"
  by (simp add: engineOptions_def env_example_def opts_empty_strategy_def property_def js_or_def)

text \<open>
  C6, amended. Each strategy field that is unset, or set to a falsy value, is replaced by
  its default (\<^verbatim>\<open>DEFAULT_VERSION_STRATEGY\<close>, \<^verbatim>\<open>DEFAULT_SCHEMA_STRATEGY\<close>,
  \<^verbatim>\<open>DEFAULT_CONFLICT_STRATEGY\<close>); a truthy value is handed to the engine, or for the
  conflict strategy to the destination, unchanged.
\<close>

theorem strategies_default_when_falsy:
  "versionStrategy (engineOptions env opts) =
     (if truthy (property opts ''versionStrategy'') then property opts ''versionStrategy''
      else DEFAULT_VERSION_STRATEGY env) \<and>
   schemaStrategy (engineOptions env opts) =
     (if truthy (property opts ''schemaStrategy'') then property opts ''schemaStrategy''
      else DEFAULT_SCHEMA_STRATEGY env) \<and>
   strategy (destinationOptions env opts) =
     (if truthy (property opts ''conflictStrategy'') then property opts ''conflictStrategy''
      else DEFAULT_CONFLICT_STRATEGY env) \<and>
   (opts ''versionStrategy'' = None \<longrightarrow>
      versionStrategy (engineOptions env opts) = DEFAULT_VERSION_STRATEGY env) \<and>
   (opts ''schemaStrategy'' = None \<longrightarrow>
      schemaStrategy (engineOptions env opts) = DEFAULT_SCHEMA_STRATEGY env) \<and>
   (opts ''conflictStrategy'' = None \<longrightarrow>
      strategy (destinationOptions env opts) = DEFAULT_CONFLICT_STRATEGY env)"
  by (simp add: engineOptions_def destinationOptions_def js_or_unset) (simp add: js_or_def)

theorem strategies_default_when_falsy_witness:
  "opts_plain ''versionStrategy'' = None \<and> opts_plain ''schemaStrategy'' = None \<and>
   opts_plain ''conflictStrategy'' = None \<and>
   versionStrategy (engineOptions env_example opts_plain) = JStr ''ignore'' \<and>
   schemaStrategy (engineOptions env_example opts_plain) = JStr ''strict'' \<and>
   strategy (destinationOptions env_example opts_plain) = JStr ''restore'' \<and>
   versionStrategy (engineOptions env_example opts_strategies) = JStr ''exact'' \<and>
   schemaStrategy (engineOptions env_example opts_strategies) = JStr ''permissive'' \<and>
   strategy (destinationOptions env_example opts_strategies) = JStr ''merge''"
proof -
  have unset: "opts_plain ''versionStrategy'' = None" "opts_plain ''schemaStrategy'' = None"
    "opts_plain ''conflictStrategy'' = None"
    by (simp_all add: opts_plain_def)
  have given: "property opts_strategies ''versionStrategy'' = JStr ''exact''"
    "property opts_strategies ''schemaStrategy'' = JStr ''permissive''"
    "property opts_strategies ''conflictStrategy'' = JStr ''merge''"
    by (simp_all add: opts_strategies_def property_def)
  have defaults: "DEFAULT_VERSION_STRATEGY env_example = JStr ''ignore''"
    "DEFAULT_SCHEMA_STRATEGY env_example = JStr ''strict''"
    "DEFAULT_CONFLICT_STRATEGY env_example = JStr ''restore''"
    by (simp_all add: env_example_def)
  from strategies_default_when_falsy [of env_example opts_plain] unset
  have plain: "versionStrategy (engineOptions env_example opts_plain) =
      DEFAULT_VERSION_STRATEGY env_example"
    "schemaStrategy (engineOptions env_example opts_plain) = DEFAULT_SCHEMA_STRATEGY env_example"
    "strategy (destinationOptions env_example opts_plain) = DEFAULT_CONFLICT_STRATEGY env_example"
    by blast+
  from strategies_default_when_falsy [of env_example opts_strategies]
  have supplied: "versionStrategy (engineOptions env_example opts_strategies) = JStr ''exact''"
    "schemaStrategy (engineOptions env_example opts_strategies) = JStr ''permissive''"
    "strategy (destinationOptions env_example opts_strategies) = JStr ''merge''"
    by (simp_all add: given)
  from unset plain supplied show ?thesis
    by (simp add: defaults)
qed

text \<open>
  C7. Whatever the options object holds, the destination provider is configured with
  \<^verbatim>\<open>restore.entities.exclude\<close> equal to \<^verbatim>\<open>DEFAULT_IGNORED_CONTENT_TYPES\<close>.
\<close>

theorem destination_excludes_ignored_types:
  "restore_entities_options.exclude
     (restore_options.entities (restore (destinationOptions env opts))) =
   DEFAULT_IGNORED_CONTENT_TYPES env"
  by (simp add: destinationOptions_def)

text \<open>
  C10. \<^verbatim>\<open>getLocalFileSourceOptions\<close> maps the options field by field: the path is
  \<^verbatim>\<open>opts.file\<close>, compression is enabled exactly when \<^verbatim>\<open>opts.decompress\<close> is truthy,
  encryption is enabled exactly when \<^verbatim>\<open>opts.decrypt\<close> is truthy, and the key is
  \<^verbatim>\<open>opts.key\<close>. A key without \<^verbatim>\<open>opts.decrypt\<close> leaves encryption disabled.
\<close>

theorem getLocalFileSourceOptions_mapping:
  "path (file' (getLocalFileSourceOptions opts)) = property opts ''file'' \<and>
   enabled (compression (getLocalFileSourceOptions opts)) = truthy (property opts ''decompress'') \<and>
   enabled (encryption (getLocalFileSourceOptions opts)) = truthy (property opts ''decrypt'') \<and>
   key (encryption (getLocalFileSourceOptions opts)) = property opts ''key'' \<and>
   (\<not> truthy (property opts ''decrypt'') \<longrightarrow>
      \<not> enabled (encryption (getLocalFileSourceOptions opts)))"
  by (simp add: getLocalFileSourceOptions_def not_js_not)

theorem getLocalFileSourceOptions_mapping_witness:
  "\<not> truthy (property opts_plain ''decrypt'') \<and>
   key (encryption (getLocalFileSourceOptions opts_plain)) = JStr ''secret'' \<and>
   \<not> enabled (encryption (getLocalFileSourceOptions opts_plain))"
proof -
  have unset: "\<not> truthy (property opts_plain ''decrypt'')"
    by (simp add: opts_plain_def property_def)
  have key: "property opts_plain ''key'' = JStr ''secret''"
    by (simp add: opts_plain_def property_def)
  from getLocalFileSourceOptions_mapping [of opts_plain] unset key show ?thesis
    by simp
qed

section \<open>How the command ends\<close>

text \<open>
  C9, as the claim states it, fails where \<^verbatim>\<open>engine.transfer()\<close> does not throw and the
  table is not displayed. In the first run the promise resolves to \<^verbatim>\<open>undefined\<close>, so
  that \<^verbatim>\<open>results.engine\<close> throws inside the second \<^verbatim>\<open>try\<close>; in the second run a
  result is returned and building its table throws. Both times the \<^verbatim>\<open>catch\<close> writes an
  error line, the only \<^verbatim>\<open>console.log\<close> line is the start notice of the listener, and
  the command still sends the finish event, destroys the instance and exits with code 0.
\<close>

theorem table_not_printed_when_display_fails:
  "outcome (engine_transfer env_undefined_result opts_plain) = Returns None \<and>
   import_action env_undefined_result (OptionsObject opts_plain) =
     ([SetSignalHandler AbortTransfer,
       ConsoleLog ''Starting import...'', TelemetrySend ''didDEITSProcessStart'',
       ConsoleError ''There was an error displaying the results of the transfer.'',
       TelemetrySend ''didDEITSProcessFinish'', StrapiDestroy,
       ExitWith 0 (ExitMessageText ''import'' False)], Exited 0) \<and>
   outcome (engine_transfer env_no_table opts_plain) = Returns (Some 7) \<and>
   import_action env_no_table (OptionsObject opts_plain) =
     ([SetSignalHandler AbortTransfer,
       ConsoleLog ''Starting import...'', TelemetrySend ''didDEITSProcessStart'',
       UpdateLoader ''entities'' (JNum 0), LoaderStart ''entities'',
       UpdateLoader ''entities'' (JNum 7), LoaderSucceed ''entities'',
       ConsoleError ''There was an error displaying the results of the transfer.'',
       TelemetrySend ''didDEITSProcessFinish'', StrapiDestroy,
       ExitWith 0 (ExitMessageText ''import'' False)], Exited 0)"
  by (simp add: import_action_def engine_transfer_def show_results_def finish_import_def
      env_undefined_result_def env_no_table_def env_example_def)

text \<open>
  C9, amended. Let \<^verbatim>\<open>exitWith\<close> end the process with the code it is given and let the
  awaited telemetry sends and \<^verbatim>\<open>destroy\<close> resolve. If \<^verbatim>\<open>engine.transfer()\<close> throws,
  the command, after what its listeners did during the transfer, sends the failure event
  and exits with code 1; no table is printed, the only line \<^verbatim>\<open>console.log\<close> may have
  written being the start notice. If \<^verbatim>\<open>engine.transfer()\<close> returns, the command prints
  the result table, or an error line when reading the result, building or rendering the
  table throws, then sends the finish event, destroys the Strapi instance and exits with
  code 0.
\<close>

theorem import_action_outcome:
  assumes "exitWith env 1 (ExitMessageText ''import'' True) = Some 1"
    and "exitWith env 0 (ExitMessageText ''import'' False) = Some 0"
    and "telemetry_send env ''didDEITSProcessStart''"
    and "telemetry_send env ''didDEITSProcessFail''"
    and "telemetry_send env ''didDEITSProcessFinish''"
    and "destroy env"
  shows "(outcome (engine_transfer env opts) = Throws \<longrightarrow>
            import_action env (OptionsObject opts) =
              ([SetSignalHandler AbortTransfer] @
               concat (map (on_engine_event env opts) (emitted (engine_transfer env opts))) @
               [TelemetrySend ''didDEITSProcessFail'',
                ExitWith 1 (ExitMessageText ''import'' True)],
               Exited 1) \<and>
            set (console_log_lines (fst (import_action env (OptionsObject opts)))) \<subseteq>
              {''Starting import...''}) \<and>
         (outcome (engine_transfer env opts) = Returns results \<longrightarrow>
            import_action env (OptionsObject opts) =
              ([SetSignalHandler AbortTransfer] @
               concat (map (on_engine_event env opts) (emitted (engine_transfer env opts))) @
               (case results of
                  None \<Rightarrow>
                    [ConsoleError ''There was an error displaying the results of the transfer.'']
                | Some result \<Rightarrow>
                    (case buildTransferTable env result of
                       Some table \<Rightarrow> [ConsoleLog table]
                     | None \<Rightarrow>
                         [ConsoleError
                            ''There was an error displaying the results of the transfer.''])) @
               [TelemetrySend ''didDEITSProcessFinish'', StrapiDestroy,
                ExitWith 0 (ExitMessageText ''import'' False)],
               Exited 0))"
proof (intro conjI impI)
  assume thrown: "outcome (engine_transfer env opts) = Throws"
  note run = import_action_throws [OF assms(3) assms(4) assms(1) thrown]
  show "import_action env (OptionsObject opts) =
      ([SetSignalHandler AbortTransfer] @
       concat (map (on_engine_event env opts) (emitted (engine_transfer env opts))) @
       [TelemetrySend ''didDEITSProcessFail'', ExitWith 1 (ExitMessageText ''import'' True)],
       Exited 1)"
    by (rule run)
  from listeners_log [of env opts "emitted (engine_transfer env opts)"]
  show "set (console_log_lines (fst (import_action env (OptionsObject opts)))) \<subseteq>
      {''Starting import...''}"
    by (simp add: run console_log_lines_append)
next
  assume returned: "outcome (engine_transfer env opts) = Returns results"
  from import_action_returns [OF assms(3) assms(5) assms(6) assms(2) returned]
  show "import_action env (OptionsObject opts) =
      ([SetSignalHandler AbortTransfer] @
       concat (map (on_engine_event env opts) (emitted (engine_transfer env opts))) @
       (case results of
          None \<Rightarrow> [ConsoleError ''There was an error displaying the results of the transfer.'']
        | Some result \<Rightarrow>
            (case buildTransferTable env result of
               Some table \<Rightarrow> [ConsoleLog table]
             | None \<Rightarrow>
                 [ConsoleError ''There was an error displaying the results of the transfer.''])) @
       [TelemetrySend ''didDEITSProcessFinish'', StrapiDestroy,
        ExitWith 0 (ExitMessageText ''import'' False)],
       Exited 0)"
    by (simp add: show_results_def)
qed

theorem import_action_outcome_witness:
  "exitWith env_throwing 1 (ExitMessageText ''import'' True) = Some 1 \<and>
   telemetry_send env_throwing ''didDEITSProcessStart'' \<and>
   telemetry_send env_throwing ''didDEITSProcessFail'' \<and>
   outcome (engine_transfer env_throwing opts_plain) = Throws \<and>
   import_action env_throwing (OptionsObject opts_plain) =
     ([SetSignalHandler AbortTransfer,
       ConsoleLog ''Starting import...'', TelemetrySend ''didDEITSProcessStart'',
       UpdateLoader ''entities'' (JNum 0), LoaderStart ''entities'',
       TelemetrySend ''didDEITSProcessFail'',
       ExitWith 1 (ExitMessageText ''import'' True)], Exited 1) \<and>
   exitWith env_example 0 (ExitMessageText ''import'' False) = Some 0 \<and>
   telemetry_send env_example ''didDEITSProcessFinish'' \<and>
   destroy env_example \<and>
   outcome (engine_transfer env_example opts_plain) = Returns (Some 7) \<and>
   import_action env_example (OptionsObject opts_plain) =
     ([SetSignalHandler AbortTransfer,
       ConsoleLog ''Starting import...'', TelemetrySend ''didDEITSProcessStart'',
       UpdateLoader ''entities'' (JNum 0), LoaderStart ''entities'',
       UpdateLoader ''entities'' (JNum 7), LoaderSucceed ''entities'',
       ConsoleLog ''entities 7'',
       TelemetrySend ''didDEITSProcessFinish'', StrapiDestroy,
       ExitWith 0 (ExitMessageText ''import'' False)], Exited 0)"
proof -
  have throwing: "exitWith env_throwing 1 (ExitMessageText ''import'' True) = Some 1"
    "exitWith env_throwing 0 (ExitMessageText ''import'' False) = Some 0"
    "telemetry_send env_throwing ''didDEITSProcessStart''"
    "telemetry_send env_throwing ''didDEITSProcessFail''"
    "telemetry_send env_throwing ''didDEITSProcessFinish''"
    "destroy env_throwing"
    by (simp_all add: env_throwing_def env_example_def)
  have example: "exitWith env_example 1 (ExitMessageText ''import'' True) = Some 1"
    "exitWith env_example 0 (ExitMessageText ''import'' False) = Some 0"
    "telemetry_send env_example ''didDEITSProcessStart''"
    "telemetry_send env_example ''didDEITSProcessFail''"
    "telemetry_send env_example ''didDEITSProcessFinish''"
    "destroy env_example"
    by (simp_all add: env_example_def)
  have thrown: "outcome (engine_transfer env_throwing opts_plain) = Throws"
    and thrown_events: "emitted (engine_transfer env_throwing opts_plain) =
      [TransferStart, StageStart ''entities'' (JNum 0)]"
    by (simp_all add: engine_transfer_def env_throwing_def env_example_def)
  have returned: "outcome (engine_transfer env_example opts_plain) = Returns (Some 7)"
    and returned_events: "emitted (engine_transfer env_example opts_plain) =
      [TransferStart, StageStart ''entities'' (JNum 0), StageFinish ''entities'' (JNum 7)]"
    by (simp_all add: engine_transfer_def env_example_def)
  have table: "buildTransferTable env_example 7 = Some ''entities 7''"
    by (simp add: env_example_def)
  from import_action_outcome [OF throwing, of opts_plain] thrown
  have "import_action env_throwing (OptionsObject opts_plain) =
      ([SetSignalHandler AbortTransfer] @
       concat (map (on_engine_event env_throwing opts_plain)
         (emitted (engine_transfer env_throwing opts_plain))) @
       [TelemetrySend ''didDEITSProcessFail'', ExitWith 1 (ExitMessageText ''import'' True)],
       Exited 1)"
    by blast
  then have failed: "import_action env_throwing (OptionsObject opts_plain) =
     ([SetSignalHandler AbortTransfer,
       ConsoleLog ''Starting import...'', TelemetrySend ''didDEITSProcessStart'',
       UpdateLoader ''entities'' (JNum 0), LoaderStart ''entities'',
       TelemetrySend ''didDEITSProcessFail'',
       ExitWith 1 (ExitMessageText ''import'' True)], Exited 1)"
    by (simp add: thrown_events)
  from import_action_outcome [OF example, of opts_plain "Some 7"] returned
  have "import_action env_example (OptionsObject opts_plain) =
      ([SetSignalHandler AbortTransfer] @
       concat (map (on_engine_event env_example opts_plain)
         (emitted (engine_transfer env_example opts_plain))) @
       (case Some (7::nat) of
          None \<Rightarrow> [ConsoleError ''There was an error displaying the results of the transfer.'']
        | Some result \<Rightarrow>
            (case buildTransferTable env_example result of
               Some table \<Rightarrow> [ConsoleLog table]
             | None \<Rightarrow>
                 [ConsoleError ''There was an error displaying the results of the transfer.''])) @
       [TelemetrySend ''didDEITSProcessFinish'', StrapiDestroy,
        ExitWith 0 (ExitMessageText ''import'' False)],
       Exited 0)"
    by blast
  then have finished: "import_action env_example (OptionsObject opts_plain) =
     ([SetSignalHandler AbortTransfer,
       ConsoleLog ''Starting import...'', TelemetrySend ''didDEITSProcessStart'',
       UpdateLoader ''entities'' (JNum 0), LoaderStart ''entities'',
       UpdateLoader ''entities'' (JNum 7), LoaderSucceed ''entities'',
       ConsoleLog ''entities 7'',
       TelemetrySend ''didDEITSProcessFinish'', StrapiDestroy,
       ExitWith 0 (ExitMessageText ''import'' False)], Exited 0)"
    by (simp add: returned_events table)
  from throwing(1,3,4) thrown failed example(2,5,6) returned finished show ?thesis
    by blast
qed

end
